theory Spec2Isabelle
  imports Main
begin

section \<open>The typography module: \<^verbatim>\<open>src/utils/typography.js\<close>\<close>

text \<open>
  The module imports the \<^verbatim>\<open>Typography\<close> constructor and the \<^verbatim>\<open>DeYoung\<close> theme object
  from two packages, assigns one property on the theme object, constructs an engine from
  it, calls \<^verbatim>\<open>injectStyles\<close> outside production, and exports the engine together with
  two of its members.

  The two packages are not part of the module. They enter the model as parameters: the
  theme object the module starts from, the constructor, and the engine the constructor
  returns. Everything proved below holds for every choice of them.
\<close>

subsection \<open>Data\<close>

text \<open>
  A style is the object literal \<^verbatim>\<open>{ boxShadow: `none` }\<close>: CSS property names with their
  values, in source order. A style table maps selectors to styles.
\<close>

type_synonym style = "(string \<times> string) list"
type_synonym style_table = "(string \<times> style) list"

text \<open>
  The value of a property of the theme object. The module stores a function there, so
  functions returning a style table are told apart from all other values. \<open>'a\<close> is what
  the library passes to such a function, \<open>'v\<close> stands for the values the module never
  inspects (sizes, font lists, colours).
\<close>

datatype ('a, 'v) jsval = Hook "'a \<Rightarrow> style_table" | Plain 'v

text \<open>A theme is a JavaScript object: a finite map from property names to values.\<close>

type_synonym ('a, 'v) theme = "string \<rightharpoonup> ('a, 'v) jsval"

text \<open>
  The engine, as far as the module touches it: the members \<^verbatim>\<open>rhythm\<close> and \<^verbatim>\<open>scale\<close>, which
  it re-exports without calling, and \<^verbatim>\<open>injectStyles\<close>, which it calls. \<^verbatim>\<open>injectStyles\<close> acts
  on the style target \<open>'d\<close> and may throw \<open>'e\<close>. The members are closures of the engine
  object; they are modelled as not depending on the receiver of the call.
\<close>

record ('n, 'l, 's, 'd, 'e) engine =
  rhythm :: "'n \<Rightarrow> 'l"
  scale :: "'n \<Rightarrow> 's"
  injectStyles :: "'d \<Rightarrow> 'e option \<times> 'd"

text \<open>The calls the module makes into the library, in the order it makes them.\<close>

datatype ('a, 'v) call = NewTypography "('a, 'v) theme" | InjectStyles

text \<open>
  What the module evaluation acts on: the imported theme object (shared with every other
  importer of the theme), the style target, and the log of library calls.
\<close>

record ('a, 'v, 'd) mstate =
  DeYoung :: "('a, 'v) theme"
  target :: 'd
  calls :: "('a, 'v) call list"

text \<open>The three exports of the module.\<close>

record ('n, 'l, 's, 'd, 'e) exports =
  rhythm_export :: "'n \<Rightarrow> 'l"
  scale_export :: "'n \<Rightarrow> 's"
  default_export :: "('n, 'l, 's, 'd, 'e) engine"

subsection \<open>Lines 6 to 12: the assignment to \<^verbatim>\<open>DeYoung.overrideThemeStyles\<close>\<close>

text \<open>The arrow function of lines 6 to 12. It takes no parameter and ignores what it is given.\<close>

definition overrideThemeStyles :: "'a \<Rightarrow> style_table" where
  "overrideThemeStyles args = [(''a.gatsby-resp-image-link'', [(''boxShadow'', ''none'')])]"

text \<open>The assignment, on the theme object.\<close>

definition override_theme :: "('a, 'v) theme \<Rightarrow> ('a, 'v) theme" where
  "override_theme th = th(''overrideThemeStyles'' \<mapsto> Hook overrideThemeStyles)"

definition assign_overrideThemeStyles :: "('a, 'v, 'd) mstate \<Rightarrow> ('a, 'v, 'd) mstate" where
  "assign_overrideThemeStyles st = st\<lparr>DeYoung := override_theme (DeYoung st)\<rparr>"

text \<open>
  Reading a style table off a theme: the named property is called with \<open>args\<close> when it is a
  function; a missing property or another value contributes no rule.
\<close>

definition styles_of :: "string \<Rightarrow> ('a, 'v) theme \<Rightarrow> 'a \<Rightarrow> style_table" where
  "styles_of p th args = (case th p of Some (Hook f) \<Rightarrow> f args | _ \<Rightarrow> [])"

subsection \<open>Line 14: \<^verbatim>\<open>new Typography(DeYoung)\<close>\<close>

text \<open>
  The constructor is handed the theme object as it is at that moment. It returns an engine
  or throws; the module has no handler, so a throw ends the evaluation.
\<close>

definition new_Typography ::
  "(('a, 'v) theme \<Rightarrow> 'e + ('n, 'l, 's, 'd, 'e) engine) \<Rightarrow> ('a, 'v, 'd) mstate
     \<Rightarrow> ('a, 'v, 'd) mstate \<times> ('e + ('n, 'l, 's, 'd, 'e) engine)" where
  "new_Typography ctor st =
     (st\<lparr>calls := calls st @ [NewTypography (DeYoung st)]\<rparr>, ctor (DeYoung st))"

subsection \<open>Lines 17 to 19: the guarded call of \<^verbatim>\<open>injectStyles\<close>\<close>

definition call_injectStyles ::
  "('n, 'l, 's, 'd, 'e) engine \<Rightarrow> ('a, 'v, 'd) mstate \<Rightarrow> ('a, 'v, 'd) mstate \<times> 'e option" where
  "call_injectStyles typography st =
     (case injectStyles typography (target st) of
        (exn, tgt) \<Rightarrow> (st\<lparr>target := tgt, calls := calls st @ [InjectStyles]\<rparr>, exn))"

text \<open>
  \<^verbatim>\<open>process.env.NODE_ENV\<close> is a string, or undefined when the variable is not set (\<open>None\<close>).
  The comparison is the strict \<^verbatim>\<open>!==\<close>, so undefined differs from \<^verbatim>\<open>`production`\<close>.
\<close>

definition hot_reload ::
  "string option \<Rightarrow> ('n, 'l, 's, 'd, 'e) engine \<Rightarrow> ('a, 'v, 'd) mstate
     \<Rightarrow> ('a, 'v, 'd) mstate \<times> 'e option" where
  "hot_reload NODE_ENV typography st =
     (if NODE_ENV \<noteq> Some ''production'' then call_injectStyles typography st else (st, None))"

subsection \<open>The whole module evaluation\<close>

text \<open>
  The statements in source order. The result is the final state together with either the
  exception that ended the evaluation or the exports of lines 21 to 23.
\<close>

definition initialize ::
  "(('a, 'v) theme \<Rightarrow> 'e + ('n, 'l, 's, 'd, 'e) engine) \<Rightarrow> string option \<Rightarrow> ('a, 'v) theme \<Rightarrow> 'd
     \<Rightarrow> ('a, 'v, 'd) mstate \<times> ('e + ('n, 'l, 's, 'd, 'e) exports)" where
  "initialize ctor NODE_ENV theme0 tgt0 =
     (let st0 = \<lparr>DeYoung = theme0, target = tgt0, calls = []\<rparr>;
          st1 = assign_overrideThemeStyles st0
      in case new_Typography ctor st1 of
           (st2, Inl e) \<Rightarrow> (st2, Inl e)
         | (st2, Inr typography) \<Rightarrow>
             (case hot_reload NODE_ENV typography st2 of
                (st3, Some e) \<Rightarrow> (st3, Inl e)
              | (st3, None) \<Rightarrow>
                  (st3, Inr \<lparr>rhythm_export = rhythm typography,
                             scale_export = scale typography,
                             default_export = typography\<rparr>)))"

subsection \<open>Concrete themes, engines and constructors\<close>

text \<open>A theme in the shape the theme package gives: base values and its own style function.\<close>

definition link_rules :: "unit \<Rightarrow> style_table" where
  "link_rules args = [(''a'', [(''color'', ''#fb251b''), (''textDecoration'', ''none'')])]"

definition plain_theme :: "(unit, string) theme" where
  "plain_theme = [''baseFontSize'' \<mapsto> Plain ''21px'', ''baseLineHeight'' \<mapsto> Plain ''1.45'',
                  ''overrideStyles'' \<mapsto> Hook link_rules]"

text \<open>A theme object without a base font size.\<close>

definition bare_theme :: "(unit, string) theme" where
  "bare_theme = [''baseLineHeight'' \<mapsto> Plain ''1.45'']"

text \<open>
  A stand-in engine: the style target counts the injections it has received, and
  \<^verbatim>\<open>injectStyles\<close> does not throw.
\<close>

definition mock_engine :: "(int, int, int \<times> int, nat, string) engine" where
  "mock_engine = \<lparr>rhythm = (\<lambda>m. 3 * m), scale = (\<lambda>s. (s, 1)), injectStyles = (\<lambda>n. (None, Suc n))\<rparr>"

text \<open>A constructor that accepts every theme, and one that rejects every theme.\<close>

definition accepting_ctor :: "(unit, string) theme \<Rightarrow> string + (int, int, int \<times> int, nat, string) engine" where
  "accepting_ctor th = Inr mock_engine"

definition rejecting_ctor :: "(unit, string) theme \<Rightarrow> string + (int, int, int \<times> int, nat, string) engine" where
  "rejecting_ctor th = Inl ''ConfigurationError''"

section \<open>Properties\<close>

subsection \<open>The evaluation, case by case\<close>

lemma initialize_ctor_throws:
  assumes "ctor (override_theme th) = Inl e"
  shows "initialize ctor env th tgt =
           (\<lparr>DeYoung = override_theme th, target = tgt,
             calls = [NewTypography (override_theme th)]\<rparr>, Inl e)"
  using assms
  by (simp add: initialize_def assign_overrideThemeStyles_def new_Typography_def)

lemma initialize_production:
  assumes "ctor (override_theme th) = Inr t"
  shows "initialize ctor (Some ''production'') th tgt =
           (\<lparr>DeYoung = override_theme th, target = tgt,
             calls = [NewTypography (override_theme th)]\<rparr>,
            Inr \<lparr>rhythm_export = rhythm t, scale_export = scale t, default_export = t\<rparr>)"
  using assms
  by (simp add: initialize_def assign_overrideThemeStyles_def new_Typography_def hot_reload_def)

lemma initialize_other_env:
  assumes "ctor (override_theme th) = Inr t" and "env \<noteq> Some ''production''"
  shows "initialize ctor env th tgt =
           (\<lparr>DeYoung = override_theme th, target = snd (injectStyles t tgt),
             calls = [NewTypography (override_theme th), InjectStyles]\<rparr>,
            case fst (injectStyles t tgt) of
              Some e \<Rightarrow> Inl e
            | None \<Rightarrow> Inr \<lparr>rhythm_export = rhythm t, scale_export = scale t, default_export = t\<rparr>)"
  using assms
  by (simp add: initialize_def assign_overrideThemeStyles_def new_Typography_def hot_reload_def
      call_injectStyles_def split: prod.splits option.splits)

subsection \<open>The environment guard\<close>

text \<open>
  C2. In every evaluation of the module with \<^verbatim>\<open>NODE_ENV\<close> equal to \<^verbatim>\<open>production\<close>,
  whatever the theme, the constructor and the style target, \<^verbatim>\<open>injectStyles\<close> is never
  called: the call log holds no injection, and the style target is left as it was.
\<close>

theorem production_never_injects:
  "count_list (calls (fst (initialize ctor (Some ''production'') th tgt))) InjectStyles = 0
   \<and> target (fst (initialize ctor (Some ''production'') th tgt)) = tgt"
proof (cases "ctor (override_theme th)")
  case (Inl e)
  then show ?thesis by (simp add: initialize_ctor_throws)
next
  case (Inr t)
  then show ?thesis by (simp add: initialize_production)
qed

text \<open>
  C3, as the module has it. In every evaluation of the module in which \<^verbatim>\<open>NODE_ENV\<close> is
  anything but \<^verbatim>\<open>production\<close> (another string, or undefined) and the constructor returns
  an engine, \<^verbatim>\<open>injectStyles\<close> of that engine is called exactly once: the call log holds the
  construction followed by one injection, and the style target is what that one call of
  \<^verbatim>\<open>injectStyles\<close> makes of the target the evaluation started with.
\<close>

theorem other_env_injects_once:
  assumes "env \<noteq> Some ''production''" and "ctor (override_theme th) = Inr t"
  shows "count_list (calls (fst (initialize ctor env th tgt))) InjectStyles = 1
         \<and> calls (fst (initialize ctor env th tgt)) =
             [NewTypography (override_theme th), InjectStyles]
         \<and> target (fst (initialize ctor env th tgt)) = snd (injectStyles t tgt)"
  using assms by (simp add: initialize_other_env)

theorem other_env_injects_once_witness:
  "Some ''development'' \<noteq> Some ''production''
   \<and> accepting_ctor (override_theme plain_theme) = Inr mock_engine
   \<and> count_list (calls (fst (initialize accepting_ctor (Some ''development'') plain_theme 0)))
        InjectStyles = 1
   \<and> target (fst (initialize accepting_ctor (Some ''development'') plain_theme 0)) = 1"
proof -
  have env: "Some ''development'' \<noteq> Some ''production''" by simp
  have ok: "accepting_ctor (override_theme plain_theme) = Inr mock_engine"
    by (simp add: accepting_ctor_def)
  have injected: "snd (injectStyles mock_engine 0) = 1"
    by (simp add: mock_engine_def)
  note once = other_env_injects_once
    [of "Some ''development''" accepting_ctor plain_theme mock_engine 0, OF env ok]
  from env ok once [THEN conjunct1] once [THEN conjunct2, THEN conjunct2] injected
  show ?thesis by simp
qed

text \<open>
  C3 as stated, for every evaluation outside production, fails where the constructor
  throws: the evaluation ends at line 14, before the guard, and \<^verbatim>\<open>injectStyles\<close> is not
  called at all.
\<close>

theorem ctor_throws_no_injection_counterexample:
  "Some ''development'' \<noteq> Some ''production''
   \<and> count_list (calls (fst (initialize rejecting_ctor (Some ''development'') plain_theme 0)))
        InjectStyles = 0
   \<and> target (fst (initialize rejecting_ctor (Some ''development'') plain_theme 0)) = 0"
  by (simp add: initialize_ctor_throws rejecting_ctor_def)

subsection \<open>The assignment to the theme\<close>



subsection \<open>Failure of the evaluation\<close>

text \<open>
  C4, as the module has it. The module does not look at the base values of the theme. In
  every evaluation the overridden theme is handed to the constructor, whatever it
  contains. The evaluation fails exactly when a library call throws: the constructor, or
  \<^verbatim>\<open>injectStyles\<close> outside production. The exception is the one the library threw. When the
  constructor throws, nothing has been injected, the style target is as it was, and nothing
  is exported.
\<close>

theorem initialize_fails_iff_library_throws:
  "(snd (initialize ctor env th tgt) = Inl e \<longleftrightarrow>
      ctor (override_theme th) = Inl e
      \<or> (\<exists>t. ctor (override_theme th) = Inr t \<and> env \<noteq> Some ''production''
              \<and> fst (injectStyles t tgt) = Some e))
   \<and> hd (calls (fst (initialize ctor env th tgt))) = NewTypography (override_theme th)
   \<and> (ctor (override_theme th) = Inl e \<longrightarrow>
        initialize ctor env th tgt =
          (\<lparr>DeYoung = override_theme th, target = tgt,
            calls = [NewTypography (override_theme th)]\<rparr>, Inl e))"
proof (cases "ctor (override_theme th)")
  case (Inl e')
  then show ?thesis by (simp add: initialize_ctor_throws)
next
  case (Inr t)
  show ?thesis
  proof (cases "env = Some ''production''")
    case True
    with Inr show ?thesis by (simp add: initialize_production)
  next
    case False
    with Inr show ?thesis
      by (simp add: initialize_other_env split: option.splits)
  qed
qed

theorem initialize_fails_iff_library_throws_witness:
  "rejecting_ctor (override_theme bare_theme) = Inl ''ConfigurationError''
   \<and> initialize rejecting_ctor None bare_theme 0 =
       (\<lparr>DeYoung = override_theme bare_theme, target = 0,
         calls = [NewTypography (override_theme bare_theme)]\<rparr>, Inl ''ConfigurationError'')"
proof -
  have throws: "rejecting_ctor (override_theme bare_theme) = Inl ''ConfigurationError''"
    by (simp add: rejecting_ctor_def)
  note all = initialize_fails_iff_library_throws
    [of rejecting_ctor None bare_theme 0 "''ConfigurationError''"]
  note aborted = all [THEN conjunct2, THEN conjunct2, rule_format, OF throws]
  from throws aborted show ?thesis by (rule conjI)
qed

text \<open>
  C4 as stated fails where the constructor accepts a theme without a base font size: the
  evaluation then ends with the exports, and no error.
\<close>

theorem missing_base_value_counterexample:
  "bare_theme ''baseFontSize'' = None
   \<and> snd (initialize accepting_ctor (Some ''production'') bare_theme 0) =
       Inr \<lparr>rhythm_export = rhythm mock_engine, scale_export = scale mock_engine,
            default_export = mock_engine\<rparr>"
  by (simp add: bare_theme_def initialize_production accepting_ctor_def)

subsection \<open>Order of the statements and the exports\<close>

text \<open>
  C9. The assignment comes before the construction: the constructor is called once, first
  of all library calls, on the overridden theme, whose \<^verbatim>\<open>overrideThemeStyles\<close> maps
  \<^verbatim>\<open>a.gatsby-resp-image-link\<close> to \<^verbatim>\<open>{boxShadow: none}\<close>. Nothing the module does afterwards
  changes the theme or the engine: at the end of the evaluation the theme object is the one
  the constructor was given, and the exported engine is the one it returned.
\<close>

theorem engine_built_from_overridden_theme:
  assumes "ctor (override_theme th) = Inr t"
  shows "calls (fst (initialize ctor env th tgt)) =
           NewTypography (override_theme th)
             # (if env \<noteq> Some ''production'' then [InjectStyles] else [])
         \<and> map_of (styles_of ''overrideThemeStyles'' (override_theme th) args)
               ''a.gatsby-resp-image-link'' = Some [(''boxShadow'', ''none'')]
         \<and> DeYoung (fst (initialize ctor env th tgt)) = override_theme th
         \<and> (\<forall>m. snd (initialize ctor env th tgt) = Inr m \<longrightarrow> default_export m = t)"
proof -
  have entry: "map_of (styles_of ''overrideThemeStyles'' (override_theme th) args)
                 ''a.gatsby-resp-image-link'' = Some [(''boxShadow'', ''none'')]"
    by (simp add: styles_of_def override_theme_def overrideThemeStyles_def)
  show ?thesis
  proof (cases "env = Some ''production''")
    case True
    with assms entry show ?thesis by (simp add: initialize_production)
  next
    case False
    with assms entry show ?thesis
      by (auto simp add: initialize_other_env split: option.splits)
  qed
qed

theorem engine_built_from_overridden_theme_witness:
  "accepting_ctor (override_theme plain_theme) = Inr mock_engine
   \<and> snd (initialize accepting_ctor None plain_theme 0) =
       Inr \<lparr>rhythm_export = rhythm mock_engine, scale_export = scale mock_engine,
            default_export = mock_engine\<rparr>
   \<and> calls (fst (initialize accepting_ctor None plain_theme 0)) =
       [NewTypography (override_theme plain_theme), InjectStyles]
   \<and> DeYoung (fst (initialize accepting_ctor None plain_theme 0)) = override_theme plain_theme
   \<and> default_export \<lparr>rhythm_export = rhythm mock_engine, scale_export = scale mock_engine,
                      default_export = mock_engine\<rparr> = mock_engine"
proof -
  have ok: "accepting_ctor (override_theme plain_theme) = Inr mock_engine"
    by (simp add: accepting_ctor_def)
  have undefined_env: "None \<noteq> Some ''production''" by simp
  have exported: "snd (initialize accepting_ctor None plain_theme 0) =
       Inr \<lparr>rhythm_export = rhythm mock_engine, scale_export = scale mock_engine,
            default_export = mock_engine\<rparr>"
    by (simp add: initialize_other_env [of accepting_ctor plain_theme mock_engine None, OF ok undefined_env]
        mock_engine_def)
  note all = engine_built_from_overridden_theme [of accepting_ctor plain_theme mock_engine None 0 "()", OF ok]
  note log = all [THEN conjunct1]
  note theme_kept = all [THEN conjunct2, THEN conjunct2, THEN conjunct1]
  note engine_kept = all [THEN conjunct2, THEN conjunct2, THEN conjunct2, rule_format, OF exported]
  from ok exported log theme_kept engine_kept show ?thesis by simp
qed

text \<open>
  C10. Whenever the evaluation ends with exports, the exported \<^verbatim>\<open>rhythm\<close> and \<^verbatim>\<open>scale\<close> are
  the members of the default export: they agree with its \<^verbatim>\<open>rhythm\<close> and \<^verbatim>\<open>scale\<close> at every
  argument. The default export is the one engine the constructor returned.
\<close>

theorem exports_are_members_of_default:
  assumes "snd (initialize ctor env th tgt) = Inr m"
  shows "rhythm_export m x = rhythm (default_export m) x
         \<and> scale_export m y = scale (default_export m) y
         \<and> ctor (override_theme th) = Inr (default_export m)"
proof (cases "ctor (override_theme th)")
  case (Inl e)
  with assms show ?thesis by (simp add: initialize_ctor_throws)
next
  case (Inr t)
  show ?thesis
  proof (cases "env = Some ''production''")
    case True
    with Inr assms show ?thesis by (auto simp add: initialize_production)
  next
    case False
    with Inr assms show ?thesis
      by (auto simp add: initialize_other_env split: option.splits)
  qed
qed

theorem exports_are_members_of_default_witness:
  "snd (initialize accepting_ctor (Some ''production'') plain_theme 0) =
     Inr \<lparr>rhythm_export = rhythm mock_engine, scale_export = scale mock_engine,
          default_export = mock_engine\<rparr>
   \<and> rhythm_export \<lparr>rhythm_export = rhythm mock_engine, scale_export = scale mock_engine,
                     default_export = mock_engine\<rparr> 2 = 6
   \<and> scale (default_export \<lparr>rhythm_export = rhythm mock_engine, scale_export = scale mock_engine,
                     default_export = mock_engine\<rparr>) 2 = (2, 1)"
proof -
  have ok: "accepting_ctor (override_theme plain_theme) = Inr mock_engine"
    by (simp add: accepting_ctor_def)
  have exported: "snd (initialize accepting_ctor (Some ''production'') plain_theme 0) =
       Inr \<lparr>rhythm_export = rhythm mock_engine, scale_export = scale mock_engine,
            default_export = mock_engine\<rparr>"
    by (simp add: initialize_production [of accepting_ctor plain_theme mock_engine, OF ok])
  note all = exports_are_members_of_default [OF exported, of 2 2]
  have "rhythm mock_engine 2 = 6" and "scale mock_engine 2 = (2, 1)"
    by (simp_all add: mock_engine_def)
  with exported all show ?thesis by simp
qed

end
